theory Spec2Isabelle
  imports Main "HOL-Library.Word"
begin

section \<open>Go values used by package rate\<close>

text \<open>
  The package has two files. \<^verbatim>\<open>limit.go\<close> holds the quantum limiter (\<^verbatim>\<open>limit\<close>,
  \<^verbatim>\<open>newLimit\<close>, \<^verbatim>\<open>(*limit).io\<close> and the reader and writer wrappers around it),
  \<^verbatim>\<open>monitor.go\<close> the rate monitor (\<^verbatim>\<open>Monitor\<close>, its sampling loop, \<^verbatim>\<open>Add\<close>,
  \<^verbatim>\<open>Close\<close>) and the monitoring reader and writer.

  Go's \<^verbatim>\<open>int\<close> and \<^verbatim>\<open>time.Duration\<close> are modelled as \<open>int\<close> with the 64-bit two's
  complement wrap-around written out (\<^verbatim>\<open>int\<close> is taken to be 64 bits wide, as on the
  usual platforms); \<^verbatim>\<open>uint64\<close> is \<open>64 word\<close>. Integer division in Go truncates
  towards zero.
\<close>

type_synonym byte = "8 word"

type_synonym uint64 = "64 word"

definition wrap64 :: "int \<Rightarrow> int" where
  "wrap64 x = (x + 2 ^ 63) mod 2 ^ 64 - 2 ^ 63"

definition go_quot :: "int \<Rightarrow> int \<Rightarrow> int" where
  "go_quot a b = sgn a * sgn b * (\<bar>a\<bar> div \<bar>b\<bar>)"

text \<open>\<^verbatim>\<open>int(bps)\<close> and \<^verbatim>\<open>time.Duration(bps)\<close> for a \<^verbatim>\<open>uint64\<close>: the same 64 bits read as signed.\<close>

definition int_of_uint64 :: "uint64 \<Rightarrow> int" where
  "int_of_uint64 u = wrap64 (uint u)"

definition Millisecond :: int where
  "Millisecond = 1000000"

definition Second :: int where
  "Second = 1000000000"

definition defaultQuantum :: int where
  "defaultQuantum = wrap64 (Millisecond * 100)"

definition MaxInt16 :: int where
  "MaxInt16 = 32767"

text \<open>
  Errors are values. \<open>EOF\<close> is \<^verbatim>\<open>io.EOF\<close>; every other error of an underlying stream
  is opaque to the package and carries a tag only.
\<close>

datatype error = EOF | StreamError nat

section \<open>The world a limiter runs in\<close>

text \<open>
  A \<^verbatim>\<open>time.Time\<close> is a count of nanoseconds since the zero time (an unbounded \<open>int\<close>),
  so the zero value of the field \<^verbatim>\<open>t0\<close> is \<open>0\<close>. The world holds the clock that
  \<^verbatim>\<open>time.Now()\<close> reads, the state of the underlying stream, and a trace of the effects
  of the limiter in the order they happen: each call of \<^verbatim>\<open>time.Sleep\<close> with its
  argument, each start of a new quantum with the new \<^verbatim>\<open>t0\<close>, and each call of the
  underlying transfer with the slice it was given and what it returned.
\<close>

datatype event =
    Slept int
  | NewQuantum int
  | Called "byte list" int "error option"

record 's world =
  clock :: int
  stream :: 's
  trace :: "event list"

text \<open>
  The interface \<^verbatim>\<open>either\<close> has one method, \<^verbatim>\<open>io(p []byte) (n int, err error)\<close>;
  \<^verbatim>\<open>eitherReader\<close> and \<^verbatim>\<open>eitherWriter\<close> forward it to \<^verbatim>\<open>Read\<close> and
  \<^verbatim>\<open>Write\<close>. Here it is the transfer function of the stream: given the slice and the
  state of the stream it yields \<open>(n, err)\<close> and the next state. The bytes a read stores
  into the slice are the stream's business and are not tracked.
\<close>

type_synonym 's either = "byte list \<Rightarrow> 's \<Rightarrow> (int \<times> error option) \<times> 's"

text \<open>
  \<^verbatim>\<open>time.Sleep(d)\<close> returns at once for \<open>d \<le> 0\<close> and otherwise pauses for at
  least \<open>d\<close>; the model advances the clock by exactly \<open>d\<close>.
  \<^verbatim>\<open>t.Sub(u)\<close> saturates at the least and greatest \<^verbatim>\<open>Duration\<close>.
\<close>

definition sleep :: "int \<Rightarrow> 's world \<Rightarrow> 's world" where
  "sleep d w = w\<lparr>clock := clock w + max d 0, trace := trace w @ [Slept d]\<rparr>"

definition time_sub :: "int \<Rightarrow> int \<Rightarrow> int" where
  "time_sub t u = max (- (2 ^ 63)) (min (2 ^ 63 - 1) (t - u))"

section \<open>The limiter (limit.go)\<close>

text \<open>
  The struct \<^verbatim>\<open>limit\<close>. The field \<^verbatim>\<open>e\<close> is \<open>lim_e\<close> here (\<open>None\<close> is the nil
  interface); the other fields keep their names.
\<close>

record 's limit =
  lim_e :: "'s either option"
  writer :: bool
  bps :: uint64
  quantum :: int
  bpq :: int
  t0 :: int
  left :: int

text \<open>
  \<^verbatim>\<open>newLimit\<close>. With \<^verbatim>\<open>bps == 0\<close> only \<^verbatim>\<open>e\<close> and \<^verbatim>\<open>bps\<close> are set, every other
  field keeps its zero value (\<^verbatim>\<open>writer\<close> too). Otherwise
  \<^verbatim>\<open>bpq = (int(bps) * int(quantum)) / int(time.Second)\<close> in 64-bit arithmetic, and a
  \<^verbatim>\<open>bpq\<close> of zero is replaced by one with
  \<^verbatim>\<open>quantum = time.Second / time.Duration(bps)\<close>.
\<close>

definition newLimit :: "'s either option \<Rightarrow> bool \<Rightarrow> uint64 \<Rightarrow> int \<Rightarrow> 's limit" where
  "newLimit ei wr b q =
     (if b = 0 then
        \<lparr>lim_e = ei, writer = False, bps = b, quantum = 0, bpq = 0, t0 = 0, left = 0\<rparr>
      else
        let ret = \<lparr>lim_e = ei, writer = wr, bps = b, quantum = q,
                   bpq = go_quot (wrap64 (int_of_uint64 b * q)) Second, t0 = 0, left = 0\<rparr>
        in if bpq ret = 0
           then ret\<lparr>bpq := 1, quantum := go_quot Second (int_of_uint64 b)\<rparr>
           else ret)"

text \<open>
  A call either returns \<open>(n, err)\<close> or panics (the slice expression \<^verbatim>\<open>p[:l.left]\<close>
  with a negative bound). A call that never returns is the value \<open>None\<close> of \<open>io\<close>.
\<close>

datatype result = Returned int "error option" | Panicked

text \<open>
  The body of \<^verbatim>\<open>(*limit).io\<close> after the nil check and the zero-length return, in the
  order of the source.

  \<open>enter\<close>: the sleep of \<^verbatim>\<open>math.MaxInt16\<close> nanoseconds when \<^verbatim>\<open>l.bps == 0\<close>, then, when
  \<^verbatim>\<open>l.left == 0\<close>, the sleep until \<^verbatim>\<open>l.t0\<close> and the start of a new quantum
  (\<^verbatim>\<open>l.t0 = time.Now().Add(l.quantum)\<close>, \<^verbatim>\<open>l.left = l.bpq\<close>).
\<close>

definition enter :: "'s limit \<Rightarrow> 's world \<Rightarrow> 's limit \<times> 's world" where
  "enter l w =
     (let w1 = (if bps l = 0 then sleep MaxInt16 w else w)
      in if left l = 0 then
           let w2 = sleep (time_sub (t0 l) (clock w1)) w1;
               t = clock w2 + quantum l
           in (l\<lparr>t0 := t, left := bpq l\<rparr>, w2\<lparr>trace := trace w2 @ [NewQuantum t]\<rparr>)
         else (l, w1))"

text \<open>
  \<open>clip\<close>: \<^verbatim>\<open>buf := p; if len(p) > l.left { buf = p[:l.left] }\<close>. The slice
  expression panics for a negative bound, which is \<open>None\<close>.
\<close>

definition clip :: "int \<Rightarrow> byte list \<Rightarrow> byte list option" where
  "clip k p =
     (if int (length p) > k then (if k < 0 then None else Some (take (nat k) p))
      else Some p)"

text \<open>\<open>transfer\<close>: \<^verbatim>\<open>n, err = l.e.io(buf); l.left -= n\<close>.\<close>

definition transfer ::
  "'s either \<Rightarrow> byte list \<Rightarrow> 's limit \<Rightarrow> 's world \<Rightarrow> (int \<times> error option) \<times> 's limit \<times> 's world" where
  "transfer f buf l w =
     (let r = f buf (stream w); n = fst (fst r); err = snd (fst r)
      in ((n, err), l\<lparr>left := wrap64 (left l - n)\<rparr>,
          w\<lparr>stream := snd r, trace := trace w @ [Called buf n err]\<rparr>))"

text \<open>
  \<open>add_n\<close>: what follows the recursive call, \<^verbatim>\<open>ntmp, err = l.io(p[len(buf):]); n += ntmp\<close>;
  a panic of the recursive call is a panic of the call.
\<close>

definition add_n ::
  "int \<Rightarrow> result \<times> 's limit \<times> 's world \<Rightarrow> (result \<times> 's limit \<times> 's world) option" where
  "add_n n x =
     (case x of (res, l4, w4) \<Rightarrow>
        (case res of
           Panicked \<Rightarrow> Some (Panicked, l4, w4)
         | Returned ntmp err2 \<Rightarrow> Some (Returned (wrap64 (n + ntmp)) err2, l4, w4)))"

text \<open>
  \<^verbatim>\<open>(*limit).io\<close>: the nil check, the zero-length return, then \<open>enter\<close>, \<open>clip\<close> and
  \<open>transfer\<close>, and for a writer whose transfer reported no error the recursive call
  on \<^verbatim>\<open>p[len(buf):]\<close>.
\<close>

partial_function (option) io ::
  "'s limit \<Rightarrow> byte list \<Rightarrow> 's world \<Rightarrow> (result \<times> 's limit \<times> 's world) option" where
  "io l p w =
     (case lim_e l of
        None \<Rightarrow> Some (Returned 0 (Some EOF), l, w)
      | Some f \<Rightarrow>
          if length p = 0 then Some (Returned 0 None, l, w)
          else
            case enter l w of (l2, w2) \<Rightarrow>
              (case clip (left l2) p of
                 None \<Rightarrow> Some (Panicked, l2, w2)
               | Some buf \<Rightarrow>
                   (case transfer f buf l2 w2 of ((n, err), l3, w3) \<Rightarrow>
                      if writer l3 \<and> err = None
                      then Option.bind (io l3 (drop (length buf) p) w3) (add_n n)
                      else Some (Returned n err, l3, w3))))"

declare io.simps [code]

text \<open>
  \<^verbatim>\<open>limitReader.Read\<close> and \<^verbatim>\<open>limitWriter.Write\<close> call \<^verbatim>\<open>l.l.io(p)\<close>;
  \<^verbatim>\<open>NewLimitReaderQuantum\<close> and \<^verbatim>\<open>NewLimitWriterQuantum\<close> wrap the stream in an
  \<^verbatim>\<open>eitherReader\<close> or \<^verbatim>\<open>eitherWriter\<close>, which is never the nil interface, and pass
  \<^verbatim>\<open>false\<close> or \<^verbatim>\<open>true\<close> for \<^verbatim>\<open>writer\<close>.
\<close>

definition NewLimitReaderQuantum :: "'s either \<Rightarrow> uint64 \<Rightarrow> int \<Rightarrow> 's limit" where
  "NewLimitReaderQuantum r b q = newLimit (Some r) False b q"

definition NewLimitReader :: "'s either \<Rightarrow> uint64 \<Rightarrow> 's limit" where
  "NewLimitReader r b = NewLimitReaderQuantum r b defaultQuantum"

definition NewLimitWriterQuantum :: "'s either \<Rightarrow> uint64 \<Rightarrow> int \<Rightarrow> 's limit" where
  "NewLimitWriterQuantum wr b q = newLimit (Some wr) True b q"

definition NewLimitWriter :: "'s either \<Rightarrow> uint64 \<Rightarrow> 's limit" where
  "NewLimitWriter wr b = NewLimitWriterQuantum wr b defaultQuantum"

definition Read :: "'s limit \<Rightarrow> byte list \<Rightarrow> 's world \<Rightarrow> (result \<times> 's limit \<times> 's world) option" where
  "Read l p w = io l p w"

definition Write :: "'s limit \<Rightarrow> byte list \<Rightarrow> 's world \<Rightarrow> (result \<times> 's limit \<times> 's world) option" where
  "Write l p w = io l p w"

subsection \<open>Streams to run the limiter on\<close>

text \<open>
  \<open>sink\<close> is a writer that accepts every slice whole and keeps what was written;
  \<open>source\<close> is a reader over the bytes still to come, which reports \<^verbatim>\<open>io.EOF\<close> once
  they are used up; \<open>script\<close> answers each call with the next prepared \<open>(n, err)\<close>.
\<close>

definition sink :: "byte list either" where
  "sink buf s = ((int (length buf), None), s @ buf)"

definition source :: "byte list either" where
  "source buf s =
     (if s = [] then ((0, Some EOF), s)
      else ((int (min (length buf) (length s)), None), drop (length buf) s))"

definition script :: "(int \<times> error option) list either" where
  "script buf s = (case s of [] \<Rightarrow> ((0, Some EOF), []) | x # xs \<Rightarrow> (x, xs))"

definition world0 :: "'s \<Rightarrow> 's world" where
  "world0 s = \<lparr>clock = 1000, stream = s, trace = []\<rparr>"

subsection \<open>Reading a trace\<close>

text \<open>
  \<open>calls\<close> lists the underlying transfers of a trace: the slice, the count and the error
  of each, in order.
\<close>

fun calls :: "event list \<Rightarrow> (byte list \<times> int \<times> error option) list" where
  "calls [] = []"
| "calls (Called buf n err # evs) = (buf, n, err) # calls evs"
| "calls (Slept d # evs) = calls evs"
| "calls (NewQuantum t # evs) = calls evs"

text \<open>
  A quantum window runs from one start of a quantum to the next. \<open>used_after u evs\<close> is
  the number of bytes transferred in the window that is open after the events \<open>evs\<close>,
  when \<open>u\<close> bytes had been transferred in the window open before them;
  \<open>windows_within b u evs\<close> says that in no window the bytes transferred exceed \<open>b\<close>,
  at any moment.
\<close>

fun used_after :: "int \<Rightarrow> event list \<Rightarrow> int" where
  "used_after u [] = u"
| "used_after u (Called buf n err # evs) = used_after (u + n) evs"
| "used_after u (Slept d # evs) = used_after u evs"
| "used_after u (NewQuantum t # evs) = used_after 0 evs"

fun windows_within :: "int \<Rightarrow> int \<Rightarrow> event list \<Rightarrow> bool" where
  "windows_within b u [] = (u \<le> b)"
| "windows_within b u (Called buf n err # evs) = (u \<le> b \<and> windows_within b (u + n) evs)"
| "windows_within b u (Slept d # evs) = windows_within b u evs"
| "windows_within b u (NewQuantum t # evs) = (u \<le> b \<and> windows_within b 0 evs)"

text \<open>
  What \<^verbatim>\<open>io.Reader\<close> and \<^verbatim>\<open>io.Writer\<close> promise of every implementation:
  \<open>0 \<le> n \<le> len(p)\<close> (\<open>obeys\<close>), and for a writer a non-nil error whenever
  \<open>n < len(p)\<close> (\<open>writes_all\<close>).
\<close>

definition obeys :: "'s either \<Rightarrow> bool" where
  "obeys f \<longleftrightarrow> (\<forall>buf s. 0 \<le> fst (fst (f buf s)) \<and> fst (fst (f buf s)) \<le> int (length buf))"

definition writes_all :: "'s either \<Rightarrow> bool" where
  "writes_all f \<longleftrightarrow> (\<forall>buf s. snd (fst (f buf s)) = None \<longrightarrow> fst (fst (f buf s)) = int (length buf))"



section \<open>The monitor (monitor.go)\<close>

text \<open>
  A sample is the struct \<^verbatim>\<open>Rate\<close>. Its field \<^verbatim>\<open>Rate\<close> is the \<^verbatim>\<open>float64\<close> quotient
  \<^verbatim>\<open>float64(nn) / delta.Seconds()\<close>; it is kept as its two operands, the drained count
  and the elapsed \<^verbatim>\<open>Duration\<close> in nanoseconds, and the floating-point division itself
  is not interpreted.
\<close>

datatype float64 = Quot uint64 int

record Rate =
  Total :: uint64
  Rate :: float64

definition defaultPeroid :: int where
  "defaultPeroid = wrap64 (500 * Millisecond)"

text \<open>
  The struct \<^verbatim>\<open>Monitor\<close>. The fields \<^verbatim>\<open>t0\<close> and \<^verbatim>\<open>n\<close> are \<open>mon_t0\<close> and \<open>mon_n\<close>
  here. The channel \<^verbatim>\<open>exit\<close> carries empty structs and has capacity 1, so its state is
  the number of values waiting in it. The callback \<^verbatim>\<open>f\<close> is represented by the list
  of samples it has been called with, kept beside the monitor.
\<close>

record Monitor =
  period :: int
  mon_t0 :: int
  mon_n :: uint64
  nn :: uint64
  exit :: nat

text \<open>\<^verbatim>\<open>Add\<close> is one atomic addition to \<^verbatim>\<open>nn\<close>.\<close>

definition Add :: "uint64 \<Rightarrow> Monitor \<Rightarrow> Monitor" where
  "Add k m = m\<lparr>nn := nn m + k\<rparr>"

text \<open>
  The two operations on a buffered channel of empty structs, as a \<^verbatim>\<open>select\<close> with a
  \<^verbatim>\<open>default\<close> tries them. \<open>chan_send c k\<close> is a send on a channel of capacity \<open>c\<close>
  that holds \<open>k\<close> values: \<open>Some\<close> with the new number of values, or \<open>None\<close> when the
  buffer is full and the send would block. \<open>chan_recv k\<close> is a receive: \<open>Some\<close> with
  the new number of values, or \<open>None\<close> when the channel is empty and the receive would
  block. The channel is never closed, so a send cannot panic.
\<close>

definition chan_send :: "nat \<Rightarrow> nat \<Rightarrow> nat option" where
  "chan_send c k = (if k < c then Some (Suc k) else None)"

definition chan_recv :: "nat \<Rightarrow> nat option" where
  "chan_recv k = (if 0 < k then Some (k - 1) else None)"

text \<open>
  \<^verbatim>\<open>Close\<close> is a \<^verbatim>\<open>select\<close> with a send on \<^verbatim>\<open>exit\<close> and a \<^verbatim>\<open>default\<close>: the send is
  taken when it can proceed, the empty default otherwise.
\<close>

definition Close :: "Monitor \<Rightarrow> Monitor" where
  "Close m = (case chan_send 1 (exit m) of Some k \<Rightarrow> m\<lparr>exit := k\<rparr> | None \<Rightarrow> m)"

text \<open>
  The receive \<^verbatim>\<open>case <-m.exit\<close> of a \<^verbatim>\<open>select\<close> with a \<^verbatim>\<open>default\<close>: \<open>Some\<close> with the
  value taken out of the channel, \<open>None\<close> when the default runs.
\<close>

definition recv_exit :: "Monitor \<Rightarrow> Monitor option" where
  "recv_exit m = (case chan_recv (exit m) of Some k \<Rightarrow> Some (m\<lparr>exit := k\<rparr>) | None \<Rightarrow> None)"

text \<open>
  The goroutine \<^verbatim>\<open>(*Monitor).monitor\<close> as a machine that takes one step at a time, so
  that calls of \<^verbatim>\<open>Add\<close> and \<^verbatim>\<open>Close\<close> by other goroutines can fall between any two
  of its shared-memory operations. The locations are: \<open>Start\<close> (the assignment
  \<^verbatim>\<open>m.t0 = time.Now()\<close>), \<open>Select1\<close> (the \<^verbatim>\<open>select\<close> at the head of the loop),
  \<open>Sleeping\<close> (\<^verbatim>\<open>time.Sleep(m.period)\<close>), \<open>Select2\<close> (the \<^verbatim>\<open>select\<close> after the sleep),
  \<open>Sample\<close> (\<^verbatim>\<open>t1\<close>, \<^verbatim>\<open>delta\<close>, \<^verbatim>\<open>m.t0 = t1\<close> and the atomic swap of \<^verbatim>\<open>m.nn\<close>),
  \<open>Deliver nn delta\<close> (\<^verbatim>\<open>m.n += nn\<close>, the rate and the call of \<^verbatim>\<open>m.f\<close>, with the
  local variables \<^verbatim>\<open>nn\<close> and \<^verbatim>\<open>delta\<close>), and \<open>Exited\<close> after \<^verbatim>\<open>return\<close>.
\<close>

datatype loc = Start | Select1 | Sleeping | Select2 | Sample | Deliver uint64 int | Exited

record sys =
  mon :: Monitor
  pc :: loc
  delivered :: "Rate list"

text \<open>One step of the goroutine; \<open>now\<close> is what \<^verbatim>\<open>time.Now()\<close> returns if the step calls it.\<close>

definition monitor :: "int \<Rightarrow> sys \<Rightarrow> sys" where
  "monitor now s =
     (case pc s of
        Start \<Rightarrow> s\<lparr>mon := (mon s)\<lparr>mon_t0 := now\<rparr>, pc := Select1\<rparr>
      | Select1 \<Rightarrow>
          (case recv_exit (mon s) of
             Some m \<Rightarrow> s\<lparr>mon := m, pc := Exited\<rparr>
           | None \<Rightarrow> s\<lparr>pc := Sleeping\<rparr>)
      | Sleeping \<Rightarrow> s\<lparr>pc := Select2\<rparr>
      | Select2 \<Rightarrow>
          (case recv_exit (mon s) of
             Some m \<Rightarrow> s\<lparr>mon := m, pc := Exited\<rparr>
           | None \<Rightarrow> s\<lparr>pc := Sample\<rparr>)
      | Sample \<Rightarrow>
          let t1 = now;
              delta = time_sub t1 (mon_t0 (mon s))
          in s\<lparr>mon := (mon s)\<lparr>mon_t0 := t1, nn := 0\<rparr>, pc := Deliver (nn (mon s)) delta\<rparr>
      | Deliver d delta \<Rightarrow>
          let m = (mon s)\<lparr>mon_n := mon_n (mon s) + d\<rparr>
          in s\<lparr>mon := m, pc := Select1,
               delivered := delivered s @ [\<lparr>Total = mon_n m, Rate = Quot d delta\<rparr>]\<rparr>
      | Exited \<Rightarrow> s)"

text \<open>
  \<^verbatim>\<open>MakeMonitorFunc\<close>: the default period for \<^verbatim>\<open>period == 0\<close>, an empty \<^verbatim>\<open>exit\<close>
  channel, and the goroutine started (at \<open>Start\<close>).
\<close>

definition MakeMonitorFunc :: "int \<Rightarrow> sys" where
  "MakeMonitorFunc p =
     \<lparr>mon = \<lparr>period = (if p = 0 then defaultPeroid else p), mon_t0 = 0, mon_n = 0, nn = 0, exit = 0\<rparr>,
      pc = Start, delivered = []\<rparr>"

text \<open>
  What can happen next: the goroutine takes a step, or some caller runs \<^verbatim>\<open>Add(k)\<close> or
  \<^verbatim>\<open>Close()\<close>. Each of the two calls is a single atomic operation on \<^verbatim>\<open>m.nn\<close> or on
  the channel, so every concurrent execution is one such sequence.
\<close>

datatype action = Loop int | CallAdd uint64 | CallClose

fun step :: "action \<Rightarrow> sys \<Rightarrow> sys" where
  "step (Loop now) s = monitor now s"
| "step (CallAdd k) s = s\<lparr>mon := Add k (mon s)\<rparr>"
| "step CallClose s = s\<lparr>mon := Close (mon s)\<rparr>"

definition run :: "action list \<Rightarrow> sys \<Rightarrow> sys" where
  "run as s = fold step as s"





definition owed :: "sys \<Rightarrow> nat" where
  "owed s = (case pc s of Sample \<Rightarrow> 1 | Deliver d delta \<Rightarrow> 1 | _ \<Rightarrow> 0)"

text \<open>
  \<open>stopping s\<close>: the channel holds no more than its capacity, and the goroutine has
  returned or a value is waiting in \<^verbatim>\<open>exit\<close> for its next \<^verbatim>\<open>select\<close>.
\<close>

definition stopping :: "sys \<Rightarrow> bool" where
  "stopping s \<longleftrightarrow> exit (mon s) \<le> 1 \<and> (pc s = Exited \<or> exit (mon s) = 1)"

subsection \<open>The monitoring reader and writer\<close>

text \<open>
  The structs \<^verbatim>\<open>MonitorReader\<close> (fields \<^verbatim>\<open>r\<close>, \<^verbatim>\<open>m\<close>, \<^verbatim>\<open>err\<close>) and
  \<^verbatim>\<open>MonitorWriter\<close> (fields \<^verbatim>\<open>w\<close>, \<^verbatim>\<open>m\<close>, \<^verbatim>\<open>err\<close>), with \<open>None\<close> for a nil
  stream and for a nil error. \<^verbatim>\<open>uint64(n)\<close> of an \<^verbatim>\<open>int\<close> is \<open>word_of_int n\<close>.
  \<^verbatim>\<open>MakeMonitorReaderFunc\<close> and \<^verbatim>\<open>MakeMonitorWriterFunc\<close> set the stream and the
  monitor and leave \<^verbatim>\<open>err\<close> nil. \<^verbatim>\<open>Read\<close> and \<^verbatim>\<open>Write\<close> test \<^verbatim>\<open>m.err\<close>, then the
  stream, call the stream and add the count to the monitor; no statement of the package
  assigns to \<^verbatim>\<open>err\<close>.
\<close>

record 's MonitorReader =
  mr_r :: "'s either option"
  mr_m :: Monitor
  mr_err :: "error option"

record 's MonitorWriter =
  mw_w :: "'s either option"
  mw_m :: Monitor
  mw_err :: "error option"

definition MakeMonitorReaderFunc :: "'s either option \<Rightarrow> int \<Rightarrow> 's MonitorReader" where
  "MakeMonitorReaderFunc rd p = \<lparr>mr_r = rd, mr_m = mon (MakeMonitorFunc p), mr_err = None\<rparr>"

definition MakeMonitorWriterFunc :: "'s either option \<Rightarrow> int \<Rightarrow> 's MonitorWriter" where
  "MakeMonitorWriterFunc wr p = \<lparr>mw_w = wr, mw_m = mon (MakeMonitorFunc p), mw_err = None\<rparr>"

definition MonitorReader_Read ::
  "'s MonitorReader \<Rightarrow> byte list \<Rightarrow> 's world \<Rightarrow> (int \<times> error option) \<times> 's MonitorReader \<times> 's world" where
  "MonitorReader_Read m p w =
     (if mr_err m \<noteq> None then ((0, mr_err m), m, w)
      else case mr_r m of
        None \<Rightarrow> ((0, Some EOF), m, w)
      | Some f \<Rightarrow>
          let r = f p (stream w); n = fst (fst r); err = snd (fst r)
          in ((n, err), m\<lparr>mr_m := Add (word_of_int n) (mr_m m)\<rparr>,
              w\<lparr>stream := snd r, trace := trace w @ [Called p n err]\<rparr>))"

definition MonitorWriter_Write ::
  "'s MonitorWriter \<Rightarrow> byte list \<Rightarrow> 's world \<Rightarrow> (int \<times> error option) \<times> 's MonitorWriter \<times> 's world" where
  "MonitorWriter_Write m p w =
     (if mw_err m \<noteq> None then ((0, mw_err m), m, w)
      else case mw_w m of
        None \<Rightarrow> ((0, Some EOF), m, w)
      | Some f \<Rightarrow>
          let r = f p (stream w); n = fst (fst r); err = snd (fst r)
          in ((n, err), m\<lparr>mw_m := Add (word_of_int n) (mw_m m)\<rparr>,
              w\<lparr>stream := snd r, trace := trace w @ [Called p n err]\<rparr>))"

section \<open>64-bit arithmetic\<close>

lemma wrap64_id: "- (2 ^ 63) \<le> x \<Longrightarrow> x < 2 ^ 63 \<Longrightarrow> wrap64 x = x"
  by (simp add: wrap64_def)

lemma go_quot_nonneg: "0 \<le> a \<Longrightarrow> 0 < b \<Longrightarrow> go_quot a b = a div b"
  by (cases "a = 0") (simp_all add: go_quot_def)

lemma int_of_uint64_small: "uint u < 2 ^ 63 \<Longrightarrow> int_of_uint64 u = uint u"
proof -
  assume small: "uint u < 2 ^ 63"
  have "- (2 ^ 63) \<le> (0::int)" and "(0::int) \<le> uint u"
    by simp_all
  then have "- (2 ^ 63) \<le> uint u"
    by (rule order_trans)
  then show ?thesis
    using small by (simp add: int_of_uint64_def wrap64_id)
qed

section \<open>Unfolding the transfer operation\<close>

lemma io_nil: "lim_e l = None \<Longrightarrow> io l p w = Some (Returned 0 (Some EOF), l, w)"
  by (subst io.simps) simp

lemma io_empty: "lim_e l = Some f \<Longrightarrow> io l [] w = Some (Returned 0 None, l, w)"
  by (subst io.simps) simp

lemma io_step:
  assumes "lim_e l = Some f" and "p \<noteq> []"
  shows "io l p w =
     (case enter l w of (l2, w2) \<Rightarrow>
        (case clip (left l2) p of
           None \<Rightarrow> Some (Panicked, l2, w2)
         | Some buf \<Rightarrow>
             (case transfer f buf l2 w2 of ((n, err), l3, w3) \<Rightarrow>
                if writer l3 \<and> err = None
                then Option.bind (io l3 (drop (length buf) p) w3) (add_n n)
                else Some (Returned n err, l3, w3))))"
  using assms by (subst io.simps) simp

subsection \<open>The pieces of a call\<close>

lemma enter_fields [simp]:
  "lim_e (fst (enter l w)) = lim_e l"
  "writer (fst (enter l w)) = writer l"
  "bps (fst (enter l w)) = bps l"
  "bpq (fst (enter l w)) = bpq l"
  "quantum (fst (enter l w)) = quantum l"
  by (simp_all add: enter_def Let_def)

lemma enter_left: "left (fst (enter l w)) = (if left l = 0 then bpq l else left l)"
  by (simp add: enter_def Let_def)

lemma enter_stream [simp]: "stream (snd (enter l w)) = stream w"
  by (simp add: enter_def Let_def sleep_def)

lemma enter_trace:
  "\<exists>evs. trace (snd (enter l w)) = trace w @ evs \<and> calls evs = [] \<and>
         used_after u evs = (if left l = 0 then 0 else u) \<and>
         windows_within b u evs = (u \<le> b \<and> (left l = 0 \<longrightarrow> 0 \<le> b))"
  by (auto simp: enter_def Let_def sleep_def)

lemma calls_append [simp]: "calls (es1 @ es2) = calls es1 @ calls es2"
  by (induction es1 rule: calls.induct) simp_all




lemma clip_eq: "clip k p = (if k < 0 then None else Some (take (nat k) p))"
  by (auto simp: clip_def)

lemma transfer_fields [simp]:
  "lim_e (fst (snd (transfer f buf l w))) = lim_e l"
  "writer (fst (snd (transfer f buf l w))) = writer l"
  "bps (fst (snd (transfer f buf l w))) = bps l"
  "bpq (fst (snd (transfer f buf l w))) = bpq l"
  "quantum (fst (snd (transfer f buf l w))) = quantum l"
  "t0 (fst (snd (transfer f buf l w))) = t0 l"
  by (simp_all add: transfer_def Let_def)

lemma transfer_result: "fst (transfer f buf l w) = fst (f buf (stream w))"
  by (simp add: transfer_def Let_def)

lemma transfer_left:
  "left (fst (snd (transfer f buf l w))) = wrap64 (left l - fst (fst (f buf (stream w))))"
  by (simp add: transfer_def Let_def)

lemma transfer_world:
  "snd (snd (transfer f buf l w)) =
     w\<lparr>stream := snd (f buf (stream w)),
       trace := trace w @ [Called buf (fst (fst (f buf (stream w)))) (snd (fst (f buf (stream w))))]\<rparr>"
  by (simp add: transfer_def Let_def)






subsection \<open>Sequences of calls\<close>



subsection \<open>Closed forms for running the limiter\<close>

lemma enter_refill:
  "left l = 0 \<Longrightarrow> bps l \<noteq> 0 \<Longrightarrow>
   enter l w = (l\<lparr>t0 := clock w + max (time_sub (t0 l) (clock w)) 0 + quantum l, left := bpq l\<rparr>,
                w\<lparr>clock := clock w + max (time_sub (t0 l) (clock w)) 0,
                  trace := trace w @ [Slept (time_sub (t0 l) (clock w)),
                     NewQuantum (clock w + max (time_sub (t0 l) (clock w)) 0 + quantum l)]\<rparr>)"
  by (simp add: enter_def sleep_def Let_def)



lemma transfer_script:
  "transfer script buf l (w\<lparr>stream := (n, err) # xs\<rparr>) =
     ((n, err), l\<lparr>left := wrap64 (left l - n)\<rparr>,
      w\<lparr>stream := xs, trace := trace w @ [Called buf n err]\<rparr>)"
  by (simp add: transfer_def script_def Let_def)

lemma newLimit_20:
  "newLimit e wr 20 defaultQuantum =
     \<lparr>lim_e = e, writer = wr, bps = 20, quantum = 100000000, bpq = 2, t0 = 0, left = 0\<rparr>"
  by (simp add: newLimit_def defaultQuantum_def Millisecond_def Second_def wrap64_def go_quot_def
      int_of_uint64_def Let_def)

lemma newLimit_wrapped:
  "newLimit e wr 100000000000 defaultQuantum =
     \<lparr>lim_e = e, writer = wr, bps = 100000000000, quantum = 100000000,
      bpq = - 8446744073, t0 = 0, left = 0\<rparr>"
  by (simp add: newLimit_def defaultQuantum_def Millisecond_def Second_def wrap64_def go_quot_def
      int_of_uint64_def Let_def)

lemma NewLimitWriter_20:
  "NewLimitWriter f 20 =
     \<lparr>lim_e = Some f, writer = True, bps = 20, quantum = 100000000, bpq = 2, t0 = 0, left = 0\<rparr>"
  by (simp add: NewLimitWriter_def NewLimitWriterQuantum_def newLimit_20)

lemma NewLimitWriter_wrapped:
  "NewLimitWriter f 100000000000 =
     \<lparr>lim_e = Some f, writer = True, bps = 100000000000, quantum = 100000000,
      bpq = - 8446744073, t0 = 0, left = 0\<rparr>"
  by (simp add: NewLimitWriter_def NewLimitWriterQuantum_def newLimit_wrapped)

lemma NewLimitReader_20:
  "NewLimitReader f 20 =
     \<lparr>lim_e = Some f, writer = False, bps = 20, quantum = 100000000, bpq = 2, t0 = 0, left = 0\<rparr>"
  by (simp add: NewLimitReader_def NewLimitReaderQuantum_def newLimit_20)

lemma NewLimitReader_wrapped:
  "NewLimitReader f 100000000000 =
     \<lparr>lim_e = Some f, writer = False, bps = 100000000000, quantum = 100000000,
      bpq = - 8446744073, t0 = 0, left = 0\<rparr>"
  by (simp add: NewLimitReader_def NewLimitReaderQuantum_def newLimit_wrapped)


lemma obeys_source: "obeys source"
  by (simp add: obeys_def source_def)

lemma writes_all_sink: "writes_all sink"
  by (simp add: writes_all_def sink_def)


subsection \<open>A write runs to the end of the buffer\<close>

lemma write_all_aux:
  assumes wa: "writes_all f"
  shows "\<forall>l w. length p = k \<longrightarrow> writer l \<longrightarrow> lim_e l = Some f \<longrightarrow> 0 \<le> left l \<longrightarrow> left l \<le> bpq l \<longrightarrow>
           1 \<le> bpq l \<longrightarrow> bpq l < 2 ^ 63 \<longrightarrow> int (length p) < 2 ^ 63 \<longrightarrow>
           (\<exists>n err l' w' cs.
              io l p w = Some (Returned n err, l', w') \<and>
              calls (trace w') = calls (trace w) @ cs \<and>
              (\<forall>c \<in> set cs. int (length (fst c)) \<le> bpq l) \<and>
              (err = None \<longrightarrow> n = int (length p) \<and> concat (map fst cs) = p \<and>
                 (\<forall>c \<in> set cs. snd (snd c) = None)) \<and>
              (err \<noteq> None \<longrightarrow> cs \<noteq> [] \<and> snd (snd (last cs)) = err))"
proof (induction k arbitrary: p rule: less_induct)
  case (less k)
  show ?case
  proof (intro allI impI)
    fix l :: "'a limit" and w :: "'a world"
    assume len: "length p = k" and wr: "writer l" and e: "lim_e l = Some f"
      and l0: "0 \<le> left l" and l1: "left l \<le> bpq l" and b1: "1 \<le> bpq l"
      and fit: "bpq l < 2 ^ 63" and plen: "int (length p) < 2 ^ 63"
    let ?goal = "\<exists>n err l' w' cs.
              io l p w = Some (Returned n err, l', w') \<and>
              calls (trace w') = calls (trace w) @ cs \<and>
              (\<forall>c \<in> set cs. int (length (fst c)) \<le> bpq l) \<and>
              (err = None \<longrightarrow> n = int (length p) \<and> concat (map fst cs) = p \<and>
                 (\<forall>c \<in> set cs. snd (snd c) = None)) \<and>
              (err \<noteq> None \<longrightarrow> cs \<noteq> [] \<and> snd (snd (last cs)) = err)"
    show ?goal
    proof (cases "p = []")
      case True
      have "io l [] w = Some (Returned 0 None, l, w)"
        using e by (simp add: io_empty)
      then show ?thesis
        using True
        by (intro exI [of _ 0] exI [of _ None] exI [of _ l] exI [of _ w] exI [of _ "[]"]) simp
    next
      case False
      define l2 where "l2 = fst (enter l w)"
      define w2 where "w2 = snd (enter l w)"
      define buf where "buf = take (nat (left l2)) p"
      define n where "n = fst (fst (f buf (stream w2)))"
      define err where "err = snd (fst (f buf (stream w2)))"
      define l3 where "l3 = fst (snd (transfer f buf l2 w2))"
      define w3 where "w3 = snd (snd (transfer f buf l2 w2))"
      define rest where "rest = drop (length buf) p"
      have en: "enter l w = (l2, w2)"
        by (simp add: l2_def w2_def)
      have left2: "left l2 = (if left l = 0 then bpq l else left l)"
        by (simp add: l2_def enter_left)
      have left2_bounds: "1 \<le> left l2" "left l2 \<le> bpq l"
        using l0 l1 b1 by (simp_all add: left2)
      have c: "clip (left l2) p = Some buf"
        using left2_bounds by (simp add: clip_eq buf_def)
      have t: "transfer f buf l2 w2 = ((n, err), l3, w3)"
        by (simp add: n_def err_def l3_def w3_def transfer_result prod_eq_iff)
      have fields3: "lim_e l3 = Some f" "writer l3" "bpq l3 = bpq l"
        using e wr by (simp_all add: l3_def l2_def)
      have buf_len: "1 \<le> length buf" "int (length buf) \<le> left l2"
        using left2_bounds False by (simp_all add: buf_def Suc_le_eq)
      obtain es where es: "trace w2 = trace w @ es" "calls es = []"
        using enter_trace [of l w 0 0] by (auto simp: w2_def)
      have tr3: "calls (trace w3) = calls (trace w) @ [(buf, n, err)]"
        by (simp add: w3_def transfer_world es n_def err_def)
      have unfold: "io l p w =
          (if err = None then Option.bind (io l3 rest w3) (add_n n)
           else Some (Returned n err, l3, w3))"
        using e False fields3(2)
        by (subst io_step [where f = f]) (simp_all add: en c t rest_def)
      show ?thesis
      proof (cases "err = None")
        case False
        have "io l p w = Some (Returned n err, l3, w3) \<and>
              calls (trace w3) = calls (trace w) @ [(buf, n, err)] \<and>
              (\<forall>c \<in> set [(buf, n, err)]. int (length (fst c)) \<le> bpq l) \<and>
              (err \<noteq> None \<longrightarrow> [(buf, n, err)] \<noteq> [] \<and> snd (snd (last [(buf, n, err)])) = err)"
          using False unfold tr3 buf_len left2_bounds by auto
        then show ?thesis
          using False
          by (intro exI [of _ n] exI [of _ err] exI [of _ l3] exI [of _ w3] exI [of _ "[(buf, n, err)]"])
             auto
      next
        case True
        have n_eq: "n = int (length buf)"
          using wa True by (simp add: writes_all_def n_def err_def)
        have "left l3 = wrap64 (left l2 - n)"
          by (simp add: l3_def transfer_left n_def)
        also have "\<dots> = left l2 - int (length buf)"
          using buf_len left2_bounds fit by (simp add: n_eq wrap64_id)
        finally have left3: "left l3 = left l2 - int (length buf)" .
        have "0 < k"
          using False len by auto
        then have rest_len: "length rest < k"
          using buf_len(1) len by (simp add: rest_def)
        have split: "buf @ rest = p"
          by (auto simp: buf_def rest_def min_def)
        have rest_fit: "int (length rest) < 2 ^ 63"
          using plen by (simp add: rest_def)
        have pre: "0 \<le> left l3" "left l3 \<le> bpq l3" "1 \<le> bpq l3" "bpq l3 < 2 ^ 63"
          using left3 buf_len left2_bounds b1 fit by (simp_all add: fields3)
        have "\<exists>n' err' l' w' cs.
            io l3 rest w3 = Some (Returned n' err', l', w') \<and>
            calls (trace w') = calls (trace w3) @ cs \<and>
            (\<forall>c \<in> set cs. int (length (fst c)) \<le> bpq l3) \<and>
            (err' = None \<longrightarrow> n' = int (length rest) \<and> concat (map fst cs) = rest \<and>
               (\<forall>c \<in> set cs. snd (snd c) = None)) \<and>
            (err' \<noteq> None \<longrightarrow> cs \<noteq> [] \<and> snd (snd (last cs)) = err')"
          by (rule less.IH [OF rest_len, of rest, rule_format, of l3 w3,
                OF refl fields3(2) fields3(1) pre rest_fit])
        then obtain n' err' l' w' cs where rec:
          "io l3 rest w3 = Some (Returned n' err', l', w')"
          "calls (trace w') = calls (trace w3) @ cs"
          "\<forall>c \<in> set cs. int (length (fst c)) \<le> bpq l"
          "err' = None \<longrightarrow> n' = int (length rest) \<and> concat (map fst cs) = rest \<and>
             (\<forall>c \<in> set cs. snd (snd c) = None)"
          "err' \<noteq> None \<longrightarrow> cs \<noteq> [] \<and> snd (snd (last cs)) = err'"
          unfolding fields3 by blast
        have io: "io l p w = Some (Returned (wrap64 (n + n')) err', l', w')"
          using True unfold rec(1) by (simp add: add_n_def)
        have total: "err' = None \<longrightarrow> wrap64 (n + n') = int (length p)"
        proof
          assume "err' = None"
          then have "n + n' = int (length p)"
            using rec(4) n_eq split by (metis length_append of_nat_add)
          then show "wrap64 (n + n') = int (length p)"
            using plen by (simp add: wrap64_id)
        qed
        have "io l p w = Some (Returned (wrap64 (n + n')) err', l', w') \<and>
              calls (trace w') = calls (trace w) @ ((buf, n, err) # cs) \<and>
              (\<forall>c \<in> set ((buf, n, err) # cs). int (length (fst c)) \<le> bpq l) \<and>
              (err' = None \<longrightarrow> wrap64 (n + n') = int (length p) \<and>
                 concat (map fst ((buf, n, err) # cs)) = p \<and>
                 (\<forall>c \<in> set ((buf, n, err) # cs). snd (snd c) = None)) \<and>
              (err' \<noteq> None \<longrightarrow> (buf, n, err) # cs \<noteq> [] \<and> snd (snd (last ((buf, n, err) # cs))) = err')"
          using io rec tr3 total split True buf_len left2_bounds by auto
        then show ?thesis
          by (intro exI [of _ "wrap64 (n + n')"] exI [of _ err'] exI [of _ l'] exI [of _ w']
                exI [of _ "(buf, n, err) # cs"])
      qed
    qed
  qed
qed

subsection \<open>A read is one call of the stream\<close>

lemma io_read_step:
  assumes "\<not> writer l" and "lim_e l = Some f" and "p \<noteq> []" and "0 \<le> left l" and "left l \<le> bpq l"
  shows "io l p w =
     Some (Returned (fst (fst (f (take (nat (left (fst (enter l w)))) p) (stream w))))
                    (snd (fst (f (take (nat (left (fst (enter l w)))) p) (stream w)))),
           fst (snd (transfer f (take (nat (left (fst (enter l w)))) p) (fst (enter l w)) (snd (enter l w)))),
           snd (snd (transfer f (take (nat (left (fst (enter l w)))) p) (fst (enter l w)) (snd (enter l w)))))"
proof -
  have "0 \<le> left (fst (enter l w))"
    using assms(4,5) by (simp add: enter_left)
  then show ?thesis
    using assms(1,2,3)
    by (subst io_step [where f = f])
       (simp_all add: clip_eq split_beta transfer_result)
qed

section \<open>Runs of the monitor\<close>

lemma run_Nil [simp]: "run [] s = s"
  by (simp add: run_def)

lemma run_Cons [simp]: "run (a # as) s = run as (step a s)"
  by (simp add: run_def)

lemma run_append [simp]: "run (as @ bs) s = run bs (run as s)"
  by (simp add: run_def)





lemma stopping_step:
  assumes "stopping s"
  shows "stopping (step a s) \<and>
         length (delivered (step a s)) + owed (step a s) \<le> length (delivered s) + owed s"
proof (cases a)
  case (Loop now)
  show ?thesis
    using assms
    by (cases "pc s")
       (auto simp: Loop stopping_def owed_def monitor_def recv_exit_def chan_recv_def Let_def)
next
  case (CallAdd k)
  show ?thesis
    using assms by (simp add: CallAdd stopping_def owed_def Add_def)
next
  case CallClose
  show ?thesis
    using assms by (auto simp: CallClose stopping_def owed_def Close_def chan_send_def)
qed

lemma stopping_run:
  "stopping s \<Longrightarrow>
   stopping (run as s) \<and> length (delivered (run as s)) + owed (run as s) \<le> length (delivered s) + owed s"
proof (induction as arbitrary: s)
  case Nil
  then show ?case by simp
next
  case (Cons a as)
  from stopping_step [OF Cons.prems, of a]
  have 1: "stopping (step a s)"
    and 2: "length (delivered (step a s)) + owed (step a s) \<le> length (delivered s) + owed s"
    by simp_all
  from Cons.IH [OF 1] 2 show ?case
    by simp
qed

lemma owed_le: "owed s \<le> 1"
  by (simp add: owed_def split: loc.splits)

section \<open>Claims about the limiter\<close>

text \<open>
  C1. The claim: with \<^verbatim>\<open>bytesPerSecond == 0\<close>, a transfer with a non-empty buffer and a
  non-nil stream sleeps for ever and never returns. The code sleeps once, for
  \<^verbatim>\<open>math.MaxInt16\<close> nanoseconds (32.767 microseconds), and goes on: it starts a quantum
  with a budget of zero, hands the underlying stream an empty slice and returns what
  that call returned. Here a one-byte \<^verbatim>\<open>Write\<close> at rate zero returns \<open>(0, nil)\<close> after
  the clock has advanced by 32767 ns.
\<close>

theorem zero_rate_transfer_returns:
  "Write (NewLimitWriter sink 0) [1] (world0 []) =
     Some (Returned 0 None, (NewLimitWriter sink 0)\<lparr>t0 := 33767\<rparr>,
           \<lparr>clock = 33767, stream = [],
            trace = [Slept 32767, Slept (- 33767), NewQuantum 33767, Called [] 0 None]\<rparr>)"
proof -
  let ?l = "NewLimitWriter sink 0"
  have l: "?l = \<lparr>lim_e = Some sink, writer = False, bps = 0, quantum = 0, bpq = 0, t0 = 0, left = 0\<rparr>"
    by (simp add: NewLimitWriter_def NewLimitWriterQuantum_def newLimit_def)
  have f: "lim_e ?l = Some sink" "left ?l = 0" "writer ?l = False"
    by (simp_all add: l)
  have e: "enter ?l (world0 []) =
      (?l\<lparr>t0 := 33767\<rparr>,
       \<lparr>clock = 33767, stream = [], trace = [Slept 32767, Slept (- 33767), NewQuantum 33767]\<rparr>)"
    by (simp add: l enter_def sleep_def time_sub_def MaxInt16_def world0_def)
  have c: "clip 0 [1] = Some []"
    by (simp add: clip_def)
  have t: "transfer sink [] (?l\<lparr>t0 := 33767\<rparr>)
        \<lparr>clock = 33767, stream = [], trace = [Slept 32767, Slept (- 33767), NewQuantum 33767]\<rparr> =
      ((0, None), ?l\<lparr>t0 := 33767\<rparr>,
       \<lparr>clock = 33767, stream = [],
        trace = [Slept 32767, Slept (- 33767), NewQuantum 33767, Called [] 0 None]\<rparr>)"
    by (simp add: l transfer_def sink_def wrap64_def)
  have "io ?l [1] (world0 []) =
      Some (Returned 0 None, ?l\<lparr>t0 := 33767\<rparr>,
            \<lparr>clock = 33767, stream = [],
             trace = [Slept 32767, Slept (- 33767), NewQuantum 33767, Called [] 0 None]\<rparr>)"
    by (subst io_step [where f = sink]) (simp_all add: e c t f)
  then show ?thesis
    by (simp add: Write_def)
qed

text \<open>
  C8. A transfer with a zero-length buffer on a limiter whose stream is not nil returns
  \<open>(0, nil)\<close> at once, whatever the rate and the state of the limiter: the limiter is
  unchanged, and so is the world (no sleep, no call of the stream, the clock as it was).
\<close>

theorem zero_length_transfer:
  "lim_e l \<noteq> None \<Longrightarrow> io l [] w = Some (Returned 0 None, l, w)"
  by (auto simp: io_empty)

theorem zero_length_transfer_witness:
  "lim_e (NewLimitReader source 0) \<noteq> None \<and>
   io (NewLimitReader source 0) [] (world0 [1, 2, 3]) =
     Some (Returned 0 None, NewLimitReader source 0, world0 [1, 2, 3])"
proof -
  have h: "lim_e (NewLimitReader source 0) \<noteq> None"
    by (simp add: NewLimitReader_def NewLimitReaderQuantum_def newLimit_def)
  show ?thesis
    using h zero_length_transfer [OF h, of "world0 [1, 2, 3]"] by simp
qed

text \<open>
  C10. The nil check comes first: on a limiter whose stream is nil every transfer returns
  \<open>(0, io.EOF)\<close> and changes nothing, also for a zero-length buffer, for which a
  limiter with a stream returns \<open>(0, nil)\<close>.
\<close>

theorem nil_stream_before_zero_length:
  "lim_e l = None \<Longrightarrow>
     io l [] w = Some (Returned 0 (Some EOF), l, w) \<and>
     io l p w = Some (Returned 0 (Some EOF), l, w) \<and>
     io l [] w \<noteq> Some (Returned 0 None, l, w)"
  by (simp add: io_nil)

theorem nil_stream_before_zero_length_witness:
  "lim_e (newLimit None True 5 defaultQuantum :: unit limit) = None \<and>
   io (newLimit None True 5 defaultQuantum) [] (world0 ()) =
     Some (Returned 0 (Some EOF), newLimit None True 5 defaultQuantum, world0 ())"
proof -
  have h: "lim_e (newLimit None True 5 defaultQuantum :: unit limit) = None"
    by (simp add: newLimit_def Let_def)
  show ?thesis
    using h nil_stream_before_zero_length [OF h, of "world0 ()" "[]"] by simp
qed

text \<open>
  C4. The specification gives the budget as \<open>floor (bytesPerSecond * quantum / 1 second)\<close>
  for every \<^verbatim>\<open>bytesPerSecond > 0\<close> and every quantum, with no overflow or wrap, and the
  doc comments promise a limit of \<^verbatim>\<open>bps * quantum\<close> bytes every quantum. \<^verbatim>\<open>newLimit\<close>
  forms the product \<^verbatim>\<open>int(bps) * int(quantum)\<close> in 64-bit signed arithmetic with no
  check, and the product wraps: at 100 GB/s with the default quantum of 100 ms the exact
  value is 10000000000 and the code computes the negative budget \<open>- 8446744073\<close>.
\<close>

theorem newLimit_bpq_wraps:
  "bpq (NewLimitWriter sink 100000000000) = - 8446744073 \<and>
   (uint (100000000000 :: uint64) * defaultQuantum) div Second = 10000000000"
  by (simp add: NewLimitWriter_def NewLimitWriterQuantum_def newLimit_def defaultQuantum_def
      Millisecond_def Second_def wrap64_def go_quot_def int_of_uint64_def Let_def)

subsection \<open>The budget where the product fits\<close>

text \<open>
  Where the rate and the product \<open>bytesPerSecond * quantum\<close> are below \<open>2 ^ 63\<close> and
  the quantum is not negative, \<^verbatim>\<open>newLimit\<close> computes the exact quotient and keeps the
  quantum, and a quotient of zero is replaced by a budget of 1 with the quantum
  \<open>1 second div bytesPerSecond\<close>. For a negative quantum Go's division truncates
  towards zero, which is not the floor: at 1 byte per second and a quantum of -1 ns the
  floor is -1 and the quotient is 0.
\<close>

lemma newLimit_bpq_in_range:
  assumes "b \<noteq> 0" and "uint b < 2 ^ 63" and "0 \<le> q" and "uint b * q < 2 ^ 63"
  shows "((uint b * q) div Second \<noteq> 0 \<longrightarrow>
            bpq (newLimit ei wr b q) = (uint b * q) div Second \<and>
            quantum (newLimit ei wr b q) = q) \<and>
         ((uint b * q) div Second = 0 \<longrightarrow>
            bpq (newLimit ei wr b q) = 1 \<and>
            quantum (newLimit ei wr b q) = Second div uint b)"
proof -
  have b: "int_of_uint64 b = uint b"
    using assms(2) by (rule int_of_uint64_small)
  have pos: "0 < uint b"
    using assms(1) by (simp add: word_greater_zero_iff word_less_def uint_0_iff less_le)
  have nonneg: "0 \<le> uint b * q"
    using assms(3) by simp
  have w: "wrap64 (uint b * q) = uint b * q"
    using nonneg assms(4) by (simp add: wrap64_id)
  have d: "go_quot (uint b * q) Second = (uint b * q) div Second"
    using nonneg by (simp add: go_quot_nonneg Second_def)
  have s: "go_quot Second (uint b) = Second div uint b"
    using pos by (simp add: go_quot_nonneg Second_def)
  show ?thesis
    using assms(1) by (simp add: newLimit_def Let_def b w d s)
qed

lemma newLimit_bpq_in_range_example:
  "(20 :: uint64) \<noteq> 0 \<and> bpq (NewLimitWriter sink 20) = 2 \<and> quantum (NewLimitWriter sink 20) = 100000000 \<and>
   bpq (NewLimitWriter sink 3) = 1 \<and> quantum (NewLimitWriter sink 3) = 333333333"
  using newLimit_bpq_in_range [of 20 defaultQuantum "Some sink" True]
        newLimit_bpq_in_range [of 3 defaultQuantum "Some sink" True]
  by (simp add: NewLimitWriter_def NewLimitWriterQuantum_def defaultQuantum_def Millisecond_def Second_def wrap64_def)

lemma newLimit_negative_quantum:
  "(uint (1 :: uint64) * (- 1)) div Second = - 1 \<and>
   go_quot (wrap64 (int_of_uint64 1 * (- 1))) Second = 0 \<and>
   bpq (NewLimitWriterQuantum sink 1 (- 1)) = 1 \<and>
   quantum (NewLimitWriterQuantum sink 1 (- 1)) = 1000000000"
  by (simp add: NewLimitWriterQuantum_def newLimit_def Second_def wrap64_def go_quot_def
      int_of_uint64_def Let_def)

subsection \<open>Writes\<close>

text \<open>
  On a write-direction limiter whose budget per quantum is at least 1 and whose remaining
  budget lies between 0 and the budget per quantum, over a writer that reports a non-nil
  error whenever it takes less than the slice it was offered, a \<^verbatim>\<open>Write\<close> of any
  length returns. It has then called the writer on consecutive slices of the buffer, none
  longer than the budget per quantum; if it returns no error the slices make up the whole
  buffer, each was written without error and \<open>n\<close> is the length of the buffer; if it
  returns an error, that is the error of the last call of the writer.
\<close>

lemma write_completes:
  assumes "writer l" and "lim_e l = Some f" and "writes_all f"
      and "0 \<le> left l" and "left l \<le> bpq l" and "1 \<le> bpq l" and "bpq l < 2 ^ 63"
      and "int (length p) < 2 ^ 63"
  shows "\<exists>n err l' w' cs.
           io l p w = Some (Returned n err, l', w') \<and>
           calls (trace w') = calls (trace w) @ cs \<and>
           (\<forall>c \<in> set cs. int (length (fst c)) \<le> bpq l) \<and>
           (err = None \<longrightarrow> n = int (length p) \<and> concat (map fst cs) = p \<and>
              (\<forall>c \<in> set cs. snd (snd c) = None)) \<and>
           (err \<noteq> None \<longrightarrow> cs \<noteq> [] \<and> snd (snd (last cs)) = err)"
  using write_all_aux [OF assms(3), of p "length p", rule_format, OF refl assms(1,2,4,5,6,7,8)] .

lemma write_completes_example:
  "\<exists>n err l' w' cs.
     io (NewLimitWriter sink 20) [1, 2, 3] (world0 []) = Some (Returned n err, l', w') \<and>
     calls (trace w') = cs \<and> (\<forall>c \<in> set cs. int (length (fst c)) \<le> 2) \<and>
     (err = None \<longrightarrow> n = 3 \<and> concat (map fst cs) = [1, 2, 3])"
  using write_completes [of "NewLimitWriter sink 20" sink "[1, 2, 3]" "world0 []"] writes_all_sink
  by (simp add: NewLimitWriter_20 world0_def) blast

text \<open>
  C3. The specification says that on every limiter with a rate above zero, over a writer
  that takes the whole slice whenever it reports no error, a \<^verbatim>\<open>Write\<close> of any length
  returns the full length and no error. The writer \<open>sink\<close> takes every slice whole and
  never reports an error. At 100 GB/s with the default quantum the budget per quantum is
  negative (the wrapped product of \<^verbatim>\<open>newLimit\<close>), the first quantum starts with
  \<^verbatim>\<open>l.left = -8446744073\<close>, and the slice expression \<^verbatim>\<open>p[:l.left]\<close> panics: a
  \<^verbatim>\<open>Write\<close> of one byte writes nothing and does not return a count.
\<close>

theorem write_panics_on_wrapped_budget:
  "(\<forall>buf s. fst (sink buf s) = (int (length buf), None)) \<and>
   bps (NewLimitWriter sink 100000000000) \<noteq> 0 \<and>
   Write (NewLimitWriter sink 100000000000) [1] (world0 []) =
     Some (Panicked, (NewLimitWriter sink 100000000000)\<lparr>t0 := 100001000, left := - 8446744073\<rparr>,
           \<lparr>clock = 1000, stream = [], trace = [Slept (- 1000), NewQuantum 100001000]\<rparr>)"
  by (simp add: sink_def Write_def NewLimitWriter_wrapped world0_def io_step [where f = sink]
      enter_refill clip_eq time_sub_def)

subsection \<open>Reads\<close>

text \<open>
  C5. The specification says that on every read-direction limiter with a rate above
  zero a \<^verbatim>\<open>Read\<close> calls the underlying reader exactly once and returns at most
  \<open>min (len(p), bytesPerQuantum)\<close> bytes. Three runs where it does not: a \<^verbatim>\<open>Read\<close>
  with an empty buffer returns \<open>(0, nil)\<close> and the reader is not called at all; at
  100 GB/s, where the budget per quantum has wrapped to a negative number, a \<^verbatim>\<open>Read\<close>
  of one byte panics before the reader is called; and a reader that answers a call with
  a count of 7 for a slice of 2 bytes makes a \<^verbatim>\<open>Read\<close> of 4 bytes at a budget of 2
  return 7.
\<close>

theorem read_makes_no_call_or_panics:
  "Read (NewLimitReader source 1000) [] (world0 [1, 2, 3]) =
     Some (Returned 0 None, NewLimitReader source 1000, world0 [1, 2, 3]) \<and>
   calls (trace (world0 [1, 2, 3 :: byte])) = [] \<and>
   Read (NewLimitReader source 100000000000) [0] (world0 [1, 2, 3]) =
     Some (Panicked, (NewLimitReader source 100000000000)\<lparr>t0 := 100001000, left := - 8446744073\<rparr>,
           \<lparr>clock = 1000, stream = [1, 2, 3], trace = [Slept (- 1000), NewQuantum 100001000]\<rparr>) \<and>
   bpq (NewLimitReader script 20) = 2 \<and>
   Read (NewLimitReader script 20) [0, 0, 0, 0] (world0 [(7, None)]) =
     Some (Returned 7 None, (NewLimitReader script 20)\<lparr>t0 := 100001000, left := - 5\<rparr>,
           \<lparr>clock = 1000, stream = [],
            trace = [Slept (- 1000), NewQuantum 100001000, Called [0, 0] 7 None]\<rparr>)"
proof -
  have "lim_e (NewLimitReader source 1000) = Some source"
    by (simp add: NewLimitReader_def NewLimitReaderQuantum_def newLimit_def Let_def)
  then have 1: "Read (NewLimitReader source 1000) [] (world0 [1, 2, 3]) =
     Some (Returned 0 None, NewLimitReader source 1000, world0 [1, 2, 3])"
    by (simp add: Read_def io_empty)
  have 2: "Read (NewLimitReader source 100000000000) [0] (world0 [1, 2, 3]) =
     Some (Panicked, (NewLimitReader source 100000000000)\<lparr>t0 := 100001000, left := - 8446744073\<rparr>,
           \<lparr>clock = 1000, stream = [1, 2, 3], trace = [Slept (- 1000), NewQuantum 100001000]\<rparr>)"
    by (simp add: Read_def NewLimitReader_wrapped world0_def io_step [where f = source]
        enter_refill clip_eq time_sub_def)
  have 3: "Read (NewLimitReader script 20) [0, 0, 0, 0] (world0 [(7, None)]) =
     Some (Returned 7 None, (NewLimitReader script 20)\<lparr>t0 := 100001000, left := - 5\<rparr>,
           \<lparr>clock = 1000, stream = [],
            trace = [Slept (- 1000), NewQuantum 100001000, Called [0, 0] 7 None]\<rparr>)"
    by (simp add: Read_def NewLimitReader_20 world0_def io_step [where f = script]
        enter_refill clip_eq time_sub_def transfer_def script_def wrap64_def Let_def)
  show ?thesis
    using 1 2 3 by (simp add: NewLimitReader_20 world0_def)
qed

text \<open>
  C5, as the code has it: on a read-direction limiter whose remaining budget lies between
  0 and the budget per quantum, over a reader that keeps \<open>0 \<le> n \<le> len(p)\<close>, a
  \<^verbatim>\<open>Read\<close> with a buffer that is not empty returns, and it has called the reader
  exactly once: on the first \<open>k\<close> bytes of the buffer, where \<open>k\<close> is the remaining
  budget, or the budget per quantum when the remaining budget was used up. What it
  returns is what that call returned, and the count is at most
  \<open>min (len(p), bytesPerQuantum)\<close>.
\<close>

theorem read_once:
  assumes "\<not> writer l" and "lim_e l = Some f" and "obeys f" and "p \<noteq> []"
      and "0 \<le> left l" and "left l \<le> bpq l"
  shows "\<exists>buf n err l' w'.
           io l p w = Some (Returned n err, l', w') \<and>
           calls (trace w') = calls (trace w) @ [(buf, n, err)] \<and>
           buf = take (nat (if left l = 0 then bpq l else left l)) p \<and>
           fst (f buf (stream w)) = (n, err) \<and>
           0 \<le> n \<and> n \<le> min (int (length p)) (bpq l)"
proof -
  define k where "k = (if left l = 0 then bpq l else left l)"
  define buf where "buf = take (nat k) p"
  define n where "n = fst (fst (f buf (stream w)))"
  define err where "err = snd (fst (f buf (stream w)))"
  have k: "left (fst (enter l w)) = k"
    by (simp add: k_def enter_left)
  have kb: "0 \<le> k" "k \<le> bpq l"
    using assms(5,6) by (simp_all add: k_def)
  define l3 where "l3 = fst (snd (transfer f buf (fst (enter l w)) (snd (enter l w))))"
  define w3 where "w3 = snd (snd (transfer f buf (fst (enter l w)) (snd (enter l w))))"
  obtain es where es: "trace (snd (enter l w)) = trace w @ es" "calls es = []"
    using enter_trace [of l w 0 0] by blast
  have io: "io l p w = Some (Returned n err, l3, w3)"
    using io_read_step [OF assms(1,2,4,5,6), of w]
    by (simp add: k buf_def n_def err_def l3_def w3_def)
  have tr: "calls (trace w3) = calls (trace w) @ [(buf, n, err)]"
    by (simp add: w3_def transfer_world es n_def err_def)
  have "0 \<le> n" and "n \<le> int (length buf)"
    using assms(3) by (simp_all add: obeys_def n_def)
  moreover have "int (length buf) \<le> min (int (length p)) (bpq l)"
    using kb by (simp add: buf_def)
  ultimately have bound: "0 \<le> n" "n \<le> min (int (length p)) (bpq l)"
    by simp_all
  have "io l p w = Some (Returned n err, l3, w3) \<and>
        calls (trace w3) = calls (trace w) @ [(buf, n, err)] \<and>
        buf = take (nat (if left l = 0 then bpq l else left l)) p \<and>
        fst (f buf (stream w)) = (n, err) \<and>
        0 \<le> n \<and> n \<le> min (int (length p)) (bpq l)"
    using io tr bound by (simp add: buf_def k_def n_def err_def)
  then show ?thesis
    by blast
qed

theorem read_once_witness:
  "\<exists>buf n err l' w'.
     io (NewLimitReader source 20) [0, 0, 0, 0, 0] (world0 [1, 2, 3, 4, 5, 6, 7]) =
       Some (Returned n err, l', w') \<and>
     calls (trace w') = [(buf, n, err)] \<and> buf = [0, 0] \<and> n = 2 \<and> err = None"
  using read_once [of "NewLimitReader source 20" source "[0, 0, 0, 0, 0]" "world0 [1, 2, 3, 4, 5, 6, 7]"]
    obeys_source
  by (simp add: NewLimitReader_20 world0_def source_def)

subsection \<open>The budget\<close>




section \<open>Claims about the monitor\<close>

text \<open>
  C2. The specification says that once the underlying operation of a monitoring reader
  or writer has returned an error, every later call returns that error without calling
  the underlying operation again, and the doc comments of \<^verbatim>\<open>Close\<close> speak of "any
  error previously encountered". \<^verbatim>\<open>Read\<close> and \<^verbatim>\<open>Write\<close> test the field \<^verbatim>\<open>err\<close>
  but never set it. Here the stream fails the first call with an error and would take 3
  bytes at the second: the first \<^verbatim>\<open>Read\<close> returns the error and leaves \<^verbatim>\<open>err\<close> nil,
  the second \<^verbatim>\<open>Read\<close> calls the stream again and returns \<open>(3, nil)\<close>; the same for
  \<^verbatim>\<open>Write\<close>.
\<close>

theorem monitor_reader_retries_after_error:
  "MonitorReader_Read (MakeMonitorReaderFunc (Some script) 0) [0, 0, 0, 0]
       (world0 [(0, Some (StreamError 1)), (3, None)]) =
     ((0, Some (StreamError 1)), MakeMonitorReaderFunc (Some script) 0,
      \<lparr>clock = 1000, stream = [(3, None)],
       trace = [Called [0, 0, 0, 0] 0 (Some (StreamError 1))]\<rparr>) \<and>
   MonitorReader_Read (MakeMonitorReaderFunc (Some script) 0) [0, 0, 0, 0]
       \<lparr>clock = 1000, stream = [(3, None)],
        trace = [Called [0, 0, 0, 0] 0 (Some (StreamError 1))]\<rparr> =
     ((3, None),
      (MakeMonitorReaderFunc (Some script) 0)\<lparr>mr_m := Add 3 (mon (MakeMonitorFunc 0))\<rparr>,
      \<lparr>clock = 1000, stream = [],
       trace = [Called [0, 0, 0, 0] 0 (Some (StreamError 1)), Called [0, 0, 0, 0] 3 None]\<rparr>) \<and>
   MonitorWriter_Write (MakeMonitorWriterFunc (Some script) 0) [7, 8, 9]
       (world0 [(0, Some (StreamError 1)), (3, None)]) =
     ((0, Some (StreamError 1)), MakeMonitorWriterFunc (Some script) 0,
      \<lparr>clock = 1000, stream = [(3, None)],
       trace = [Called [7, 8, 9] 0 (Some (StreamError 1))]\<rparr>) \<and>
   MonitorWriter_Write (MakeMonitorWriterFunc (Some script) 0) [7, 8, 9]
       \<lparr>clock = 1000, stream = [(3, None)],
        trace = [Called [7, 8, 9] 0 (Some (StreamError 1))]\<rparr> =
     ((3, None),
      (MakeMonitorWriterFunc (Some script) 0)\<lparr>mw_m := Add 3 (mon (MakeMonitorFunc 0))\<rparr>,
      \<lparr>clock = 1000, stream = [],
       trace = [Called [7, 8, 9] 0 (Some (StreamError 1)), Called [7, 8, 9] 3 None]\<rparr>)"
  by (simp add: MonitorReader_Read_def MonitorWriter_Write_def MakeMonitorReaderFunc_def
      MakeMonitorWriterFunc_def world0_def script_def Add_def Let_def)



text \<open>
  C9. \<^verbatim>\<open>Close\<close> in any interleaving; the channel \<^verbatim>\<open>exit\<close> holds at most one value,
  its capacity. A call of \<^verbatim>\<open>Close\<close> is one \<^verbatim>\<open>select\<close> with a \<^verbatim>\<open>default\<close>, a step that is
  always possible: it leaves one value in the channel, a second call changes nothing, and
  a call that finds the channel full takes the default and changes nothing. Whatever
  happens after the first call (\<open>as\<close>: steps of the goroutine, further calls of
  \<^verbatim>\<open>Close\<close> and \<^verbatim>\<open>Add\<close>), the channel never holds more than one value, at most one
  more sample is delivered, and when the goroutine stands at one of its two
  \<^verbatim>\<open>select\<close> statements its next step is the \<^verbatim>\<open>return\<close>.
\<close>

theorem close_is_idempotent:
  assumes "exit (mon s) \<le> 1"
  shows "exit (mon (step CallClose s)) = 1 \<and>
         step CallClose (step CallClose s) = step CallClose s \<and>
         (chan_send 1 (exit (mon s)) = None \<longrightarrow> step CallClose s = s) \<and>
         exit (mon (run as (step CallClose s))) \<le> 1 \<and>
         length (delivered (run as (step CallClose s))) \<le> Suc (length (delivered (step CallClose s))) \<and>
         (pc (run as (step CallClose s)) = Select1 \<or> pc (run as (step CallClose s)) = Select2 \<longrightarrow>
            pc (step (Loop t) (run as (step CallClose s))) = Exited)"
proof -
  define s1 where "s1 = step CallClose s"
  have e1: "exit (mon s1) = 1"
    using assms by (auto simp: s1_def Close_def chan_send_def)
  have idem: "step CallClose s1 = s1"
    using e1 by (simp add: Close_def chan_send_def)
  have full: "chan_send 1 (exit (mon s)) = None \<longrightarrow> step CallClose s = s"
    by (simp add: Close_def)
  have "stopping s1"
    using e1 by (simp add: stopping_def)
  from stopping_run [OF this, of as]
  have st: "stopping (run as s1)"
    and le: "length (delivered (run as s1)) + owed (run as s1) \<le> length (delivered s1) + owed s1"
    by simp_all
  have d: "length (delivered (run as s1)) \<le> Suc (length (delivered s1))"
    using le owed_le [of s1] by simp
  have x: "pc (run as s1) = Select1 \<or> pc (run as s1) = Select2 \<longrightarrow>
      pc (step (Loop t) (run as s1)) = Exited"
    using st by (auto simp: stopping_def monitor_def recv_exit_def chan_recv_def)
  show ?thesis
    using e1 idem full st d x unfolding s1_def stopping_def by blast
qed

theorem close_is_idempotent_witness:
  "exit (mon (run [Loop 10, Loop 11, Loop 12, Loop 13] (MakeMonitorFunc 0))) \<le> 1 \<and>
   pc (run [Loop 10, Loop 11, Loop 12, Loop 13] (MakeMonitorFunc 0)) = Sample \<and>
   exit (mon (step CallClose (run [Loop 10, Loop 11, Loop 12, Loop 13] (MakeMonitorFunc 0)))) = 1 \<and>
   delivered (run [CallClose, Loop 20, CallAdd 2, Loop 21]
     (step CallClose (run [Loop 10, Loop 11, Loop 12, Loop 13] (MakeMonitorFunc 0)))) =
     [\<lparr>Total = 0, Rate = Quot 0 10\<rparr>] \<and>
   pc (run [CallClose, Loop 20, CallAdd 2, Loop 21]
     (step CallClose (run [Loop 10, Loop 11, Loop 12, Loop 13] (MakeMonitorFunc 0)))) = Select1 \<and>
   pc (step (Loop 22) (run [CallClose, Loop 20, CallAdd 2, Loop 21]
     (step CallClose (run [Loop 10, Loop 11, Loop 12, Loop 13] (MakeMonitorFunc 0))))) = Exited"
proof -
  have pre: "exit (mon (run [Loop 10, Loop 11, Loop 12, Loop 13] (MakeMonitorFunc 0))) \<le> 1"
    by (simp add: MakeMonitorFunc_def monitor_def recv_exit_def chan_recv_def)
  show ?thesis
    using pre close_is_idempotent [OF pre, of "[CallClose, Loop 20, CallAdd 2, Loop 21]" 22]
    by (simp add: MakeMonitorFunc_def monitor_def recv_exit_def chan_recv_def Close_def
        chan_send_def Add_def time_sub_def)
qed

end
